theory Spec2Isabelle
  imports Main "HOL-Library.Word" "HOL-Library.AList"
begin

section \<open>Go values\<close>

text \<open>
  A Go slice is either \<open>nil\<close> or a sequence of elements; \<open>len\<close> of the nil slice
  is 0. The distinction is kept because \<open>UsersGet\<close> returns the nil slice on its
  early error paths and the decoded slice otherwise.
\<close>

type_synonym 'a slice = "'a list option"

definition len :: "'a slice \<Rightarrow> nat" where
  "len s = (case s of None \<Rightarrow> 0 | Some xs \<Rightarrow> length xs)"

definition elems :: "'a slice \<Rightarrow> 'a list" where
  "elems s = (case s of None \<Rightarrow> [] | Some xs \<Rightarrow> xs)"

text \<open>
  A call either returns or panics. \<open>Blocked\<close> is the outcome of \<open>Lock\<close> on a mutex
  that is held: the caller does not proceed.
\<close>

datatype 'a outcome = Returned 'a | Panicked string | Blocked

text \<open>Decimal rendering, as \<open>strconv.FormatInt(_, 10)\<close> and \<open>%v\<close> of an integer produce it.\<close>

definition digit :: "nat \<Rightarrow> char" where
  "digit d = ''0123456789'' ! d"

function digits10 :: "nat \<Rightarrow> string" where
  "digits10 n = (if n < 10 then [digit n] else digits10 (n div 10) @ [digit (n mod 10)])"
  by pat_completeness auto
termination
  by (relation "measure id") auto

declare digits10.simps [simp del]

definition FormatInt10 :: "int \<Rightarrow> string" where
  "FormatInt10 i = (if i < 0 then CHR ''-'' # digits10 (nat (- i)) else digits10 (nat i))"

text \<open>\<open>strings.Join\<close>.\<close>

fun Join :: "string list \<Rightarrow> string \<Rightarrow> string" where
  "Join [] sep = []"
| "Join [x] sep = x"
| "Join (x # y # ys) sep = x @ sep @ Join (y # ys) sep"

section \<open>users.go: the data model\<close>

text \<open>\<open>NameCases\<close> is the list of name cases available for VK.\<close>

definition NameCases :: "string list" where
  "NameCases = [''nom'', ''gen'', ''dat'', ''acc'', ''ins'', ''abl'']"

definition FieldFirstName :: string where "FieldFirstName = ''first_name''"
definition FieldLastName :: string where "FieldLastName = ''last_name''"
definition FieldScreenName :: string where "FieldScreenName = ''screen_name''"
definition FieldNickname :: string where "FieldNickname = ''nickname''"

record RequestParam =
  Key :: string
  Value :: string

record vkError =
  Code :: int
  Message :: string
  RequestParams :: "RequestParam slice"

record GeoPlace =
  geo_ID :: int
  Title :: string

text \<open>
  The type \<open>EpochTime\<close> is declared elsewhere in the package; it is the type
  parameter \<open>'t\<close>, and its zero value is written \<open>0\<close>.
\<close>

record 't PlatformInfo =
  Time :: 't
  Platform :: int

record University =
  uni_ID :: int
  uni_Country :: int
  uni_City :: int
  uni_Name :: string
  uni_Faculty :: int
  uni_FacultyName :: string
  Chair :: int
  ChairName :: string
  uni_Graduation :: int
  EducationForm :: string
  EducationStatus :: string

record School =
  sch_ID :: int
  sch_Country :: int
  sch_City :: int
  sch_Name :: string
  YearFrom :: int
  YearTo :: int
  Class :: string
  TypeStr :: string
  Speciality :: string

record Relative =
  rel_ID :: int
  rel_Type :: string
  rel_Name :: string

record 't UserInfo =
  ID :: int
  FirstName :: string
  LastName :: string
  ScreenName :: string
  Nickname :: string
  Sex :: int
  Domain :: string
  Birthdate :: string
  City :: GeoPlace
  Country :: GeoPlace
  Photo50 :: string
  Photo100 :: string
  Photo200 :: string
  PhotoMax :: string
  Photo200Orig :: string
  PhotoMaxOrig :: string
  HasMobile :: bool
  Online :: bool
  CanPost :: bool
  CanSeeAllPosts :: bool
  CanSeeAudio :: bool
  CanWritePrivateMessage :: bool
  Site :: string
  Status :: string
  LastSeen :: "'t PlatformInfo"
  CommonCount :: int
  University :: int
  UniversityName :: string
  Faculty :: int
  FacultyName :: int
  Graduation :: int
  Relation :: int
  Universities :: "University slice"
  Schools :: "School slice"
  Relatives :: "Relative slice"

text \<open>The envelope of a \<open>users.get\<close> reply; a nil \<open>*vkError\<close> is \<open>None\<close>.\<close>

record 't Response =
  Error :: "vkError option"
  Response :: "'t UserInfo slice"


definition UserInfo_zero :: "('t::zero) UserInfo" where
  "UserInfo_zero = \<lparr>ID = 0, FirstName = [], LastName = [], ScreenName = [], Nickname = [],
     Sex = 0, Domain = [], Birthdate = [],
     City = \<lparr>geo_ID = 0, Title = []\<rparr>, Country = \<lparr>geo_ID = 0, Title = []\<rparr>,
     Photo50 = [], Photo100 = [], Photo200 = [], PhotoMax = [], Photo200Orig = [],
     PhotoMaxOrig = [], HasMobile = False, Online = False, CanPost = False,
     CanSeeAllPosts = False, CanSeeAudio = False, CanWritePrivateMessage = False,
     Site = [], Status = [], LastSeen = \<lparr>Time = 0, Platform = 0\<rparr>, CommonCount = 0,
     University = 0, UniversityName = [], Faculty = 0, FacultyName = 0, Graduation = 0,
     Relation = 0, Universities = None, Schools = None, Relatives = None\<rparr>"

text \<open>
  Go's \<open>error\<close> values, as the two functions produce them: \<open>errors.New\<close>, the error of
  \<open>httpClient.Get\<close>, the error of \<open>json.Unmarshal\<close>, \<open>errors.Wrap\<close> of a cause with a
  context message, and a \<open>*vkError\<close> used as an \<open>error\<close>.
\<close>

datatype error =
    New string
  | Transport string
  | Json string
  | Wrap error string
  | Vk vkError

definition vkError_Error :: "vkError \<Rightarrow> string" where
  "vkError_Error err =
     ''Code='' @ FormatInt10 (Code err) @ '', len(request_params)=''
       @ FormatInt10 (int (len (RequestParams err))) @ '', '' @ Message err"

definition VkErrorCode :: "vkError \<Rightarrow> int" where
  "VkErrorCode err = Code err"

section \<open>users.go: what the functions are given\<close>

text \<open>
  A \<open>url.URL\<close> with its query kept in parsed form (\<open>url.Values\<close>, a key with its list of
  values); \<open>Query\<close>, \<open>Encode\<close> and \<open>String\<close> of the standard library are not unfolded.
\<close>

type_synonym Values = "(string \<times> string list) list"

record URL =
  Path :: string
  RawQuery :: Values

text \<open>\<open>Values.Set\<close> replaces the values of a key by the single given value.\<close>

definition query_Set :: "Values \<Rightarrow> string \<Rightarrow> string \<Rightarrow> Values" where
  "query_Set q k v = AList.update k [v] q"

text \<open>
  The reply of \<open>httpClient.Get\<close>; \<open>Body\<close> is what \<open>ioutil.ReadAll\<close> read of it (the
  source drops the error of \<open>ReadAll\<close>).
\<close>

record http_response =
  StatusCode :: int
  Body :: string

type_synonym http_client = "URL \<Rightarrow> string + http_response"

text \<open>
  The receiver \<open>*API\<close> is declared elsewhere in the package. \<open>UsersGet\<close> uses its
  method \<open>getAPIURL\<close> and its field \<open>httpClient\<close> (\<open>None\<close> when nil); both are record fields here.
\<close>

record API =
  getAPIURL :: "string \<Rightarrow> URL"
  httpClient :: "http_client option"

text \<open>
  The standard library as the functions see it: \<open>http.DefaultClient\<close>, and
  \<open>json.Unmarshal\<close> into a fresh \<open>Response\<close> (\<open>Inl\<close> its error).
\<close>

record 't runtime =
  DefaultClient :: http_client
  Unmarshal :: "string \<Rightarrow> string + 't Response"

text \<open>
  Modelled from the spec: the helper \<open>ElemInSlice\<close>, which \<open>UsersGet\<close> calls on the name
  case and \<open>NameCases\<close>, is defined elsewhere in the package and is missing here. The
  spec says of the check that the name case "must be empty or one of a fixed six-value
  enumeration", that the call fails "when a non-empty name case is outside the fixed
  enumeration", and of the empty string that it "is accepted" as "no preference". The
  helper is modelled by these words: it accepts the empty string and the elements of
  the slice.
\<close>

definition ElemInSlice :: "string \<Rightarrow> string list \<Rightarrow> bool" where
  "ElemInSlice elem vs = (elem = [] \<or> elem \<in> set vs)"

section \<open>users.go: UsersGet and GetUserByIntID\<close>

text \<open>
  The URL that \<open>UsersGet\<close> requests (lines 171 to 184 of the source). The calls to the
  logger have no part in the result and are left out, with the context argument they use.
\<close>

definition users_get_url :: "API \<Rightarrow> string list \<Rightarrow> string list \<Rightarrow> string \<Rightarrow> URL" where
  "users_get_url api userIds flds nameCase =
     (let endpoint = getAPIURL api ''users.get'';
          query = RawQuery endpoint;
          query = query_Set query ''user_ids'' (Join userIds '','');
          query = (if length flds > 0
                   then query_Set query ''fields'' (Join flds '','') else query);
          query = (if nameCase \<noteq> [] then query_Set query ''name_case'' nameCase else query)
      in endpoint\<lparr>RawQuery := query\<rparr>)"

text \<open>
  \<open>UsersGet\<close> returns its two results and the network log: the list of the URLs requested
  so far, to which each call of \<open>httpClient.Get\<close> adds one.
\<close>

definition UsersGet ::
  "'t runtime \<Rightarrow> API \<Rightarrow> string list \<Rightarrow> string list \<Rightarrow> string \<Rightarrow> URL list
     \<Rightarrow> ('t UserInfo slice \<times> error option) \<times> URL list" where
  "UsersGet rt api userIds flds nameCase net =
     (if length userIds = 0
      then ((None, Some (New ''you must pass at least one id or screen_name'')), net)
      else if \<not> ElemInSlice nameCase NameCases
      then ((None, Some (New (''the only available name cases are: ''
                                @ Join NameCases '', ''))), net)
      else
        let url = users_get_url api userIds flds nameCase;
            client = (case httpClient api of None \<Rightarrow> DefaultClient rt | Some cl \<Rightarrow> cl)
        in case client url of
             Inl err \<Rightarrow> ((None, Some (Transport err)), net @ [url])
           | Inr resp \<Rightarrow>
               (case Unmarshal rt (Body resp) of
                  Inl err \<Rightarrow>
                    ((None, Some (Wrap (Json err) ''Failed to unmarshal VK response'')),
                     net @ [url])
                | Inr response \<Rightarrow>
                    ((Response response,
                      (case Error response of None \<Rightarrow> None | Some e \<Rightarrow> Some (Vk e))),
                     net @ [url])))"

definition GetUserByIntID ::
  "('t::zero) runtime \<Rightarrow> API \<Rightarrow> 64 word \<Rightarrow> string \<Rightarrow> string list \<Rightarrow> URL list
     \<Rightarrow> ('t UserInfo \<times> error option) outcome \<times> URL list" where
  "GetUserByIntID rt api userID nameCase flds net =
     (case UsersGet rt api [FormatInt10 (sint userID)] flds nameCase net of
        ((users, err), net') \<Rightarrow>
          (case err of
             Some e \<Rightarrow> (Returned (UserInfo_zero, Some e), net')
           | None \<Rightarrow>
               if len users \<noteq> 1
               then (Panicked (''len(users):'' @ FormatInt10 (int (len users)) @ '' != 1''),
                     net')
               else (Returned (elems users ! 0, None), net')))"

section \<open>The token registry\<close>

text \<open>
  Maps and the locker are references in Go: a struct copied by value shares them with
  the original. A reference is an address, nil is \<open>None\<close>, and the state holds what each
  address refers to: the mutex behind a \<open>sync.Locker\<close> (\<open>True\<close> when held), a
  \<open>map[string]string\<close> or a \<open>map[string]AccessToken\<close>. The type \<open>AccessToken\<close> is declared
  elsewhere in the package; it is the type parameter \<open>'a\<close>.
\<close>

type_synonym ref = nat

record VkAppsPull =
  locker :: "ref option"
  callbackUrl :: string
  secrets :: "ref option"
  tokens :: "ref option"

record 'a state =
  vkAppsPull :: VkAppsPull
  mutexes :: "ref \<Rightarrow> bool"
  string_maps :: "ref \<Rightarrow> (string \<rightharpoonup> string)"
  token_maps :: "ref \<Rightarrow> (string \<rightharpoonup> 'a)"

text \<open>The state when the package has been loaded: \<open>vkAppsPull = VkAppsPull{}\<close>.\<close>

definition VkAppsPull_zero :: VkAppsPull where
  "VkAppsPull_zero = \<lparr>locker = None, callbackUrl = [], secrets = None, tokens = None\<rparr>"

definition init_state :: "'a state" where
  "init_state = \<lparr>vkAppsPull = VkAppsPull_zero, mutexes = (\<lambda>_. False),
     string_maps = (\<lambda>_. Map.empty), token_maps = (\<lambda>_. Map.empty)\<rparr>"

definition RegisterVkApps :: "string \<Rightarrow> ref option \<Rightarrow> 'a state \<Rightarrow> unit outcome \<times> 'a state" where
  "RegisterVkApps callbackUrl' appSecrets s = (Returned (), s)"

text \<open>
  \<open>Lock\<close> and \<open>Unlock\<close> of a \<open>sync.Locker\<close>, taken to be a \<open>sync.Mutex\<close>: a method call on
  the nil interface panics, \<open>Lock\<close> of a held mutex does not proceed, \<open>Unlock\<close> of a free
  mutex is a fatal error.
\<close>

definition Lock :: "ref option \<Rightarrow> 'a state \<Rightarrow> unit outcome \<times> 'a state" where
  "Lock l s =
     (case l of
        None \<Rightarrow> (Panicked ''invalid memory address or nil pointer dereference'', s)
      | Some m \<Rightarrow>
          if mutexes s m then (Blocked, s)
          else (Returned (), s\<lparr>mutexes := (mutexes s)(m := True)\<rparr>))"

definition Unlock :: "ref option \<Rightarrow> 'a state \<Rightarrow> unit outcome \<times> 'a state" where
  "Unlock l s =
     (case l of
        None \<Rightarrow> (Panicked ''invalid memory address or nil pointer dereference'', s)
      | Some m \<Rightarrow>
          if mutexes s m then (Returned (), s\<lparr>mutexes := (mutexes s)(m := False)\<rparr>)
          else (Panicked ''sync: unlock of unlocked mutex'', s))"

text \<open>The assignment \<open>m[k] = v\<close>: it panics on the nil map.\<close>

definition assign_token :: "ref option \<Rightarrow> string \<Rightarrow> 'a \<Rightarrow> 'a state \<Rightarrow> unit outcome \<times> 'a state" where
  "assign_token mp k v s =
     (case mp of
        None \<Rightarrow> (Panicked ''assignment to entry in nil map'', s)
      | Some r \<Rightarrow> (Returned (), s\<lparr>token_maps := (token_maps s)(r := (token_maps s r)(k \<mapsto> v))\<rparr>))"

text \<open>One statement after another: the second runs only when the first returned.\<close>

definition and_then ::
  "unit outcome \<times> 'a state \<Rightarrow> ('a state \<Rightarrow> unit outcome \<times> 'a state) \<Rightarrow> unit outcome \<times> 'a state" where
  "and_then r f = (case r of (Returned _, s) \<Rightarrow> f s | _ \<Rightarrow> r)"

definition addToken :: "VkAppsPull \<Rightarrow> string \<Rightarrow> 'a \<Rightarrow> 'a state \<Rightarrow> unit outcome \<times> 'a state" where
  "addToken pull appID token s =
     and_then (and_then (Lock (locker pull) s)
                        (assign_token (tokens pull) appID token))
              (Unlock (locker pull))"

text \<open>A caller that registers a sequence of tokens, one call of \<open>addToken\<close> after the other.\<close>

fun addTokens :: "VkAppsPull \<Rightarrow> (string \<times> 'a) list \<Rightarrow> 'a state \<Rightarrow> unit outcome \<times> 'a state" where
  "addTokens pull [] s = (Returned (), s)"
| "addTokens pull ((appID, token) # regs) s =
     and_then (addToken pull appID token s) (addTokens pull regs)"

section \<open>The token registry: concurrent calls\<close>

text \<open>
  The body of \<open>addToken\<close> as its three statements, so that calls running at the same time
  can be interleaved statement by statement. A call is the receiver it was given (a
  copy of the struct) and the statements it has still to run. A configuration is the
  list of the calls, the shared state, and the panic that ended the program, if any.
  \<open>step_call i\<close> lets call \<open>i\<close> run its next statement: a statement that returns is
  removed from the call, a \<open>Lock\<close> that finds the mutex held leaves everything as it is
  (the call waits), a panic ends the program and nothing runs after it. \<open>run\<close> follows a
  schedule, the list of the calls' numbers in the order in which they are let run.
  A call is in its critical section when it has passed \<open>Lock\<close> and not yet \<open>Unlock\<close>:
  its next statement is the assignment or \<open>Unlock\<close>.
\<close>

datatype 'a stmt = LockStmt | AssignStmt string 'a | UnlockStmt

definition addToken_body :: "string \<Rightarrow> 'a \<Rightarrow> 'a stmt list" where
  "addToken_body appID token = [LockStmt, AssignStmt appID token, UnlockStmt]"

fun exec_stmt :: "VkAppsPull \<Rightarrow> 'a stmt \<Rightarrow> 'a state \<Rightarrow> unit outcome \<times> 'a state" where
  "exec_stmt pull LockStmt s = Lock (locker pull) s"
| "exec_stmt pull (AssignStmt appID token) s = assign_token (tokens pull) appID token s"
| "exec_stmt pull UnlockStmt s = Unlock (locker pull) s"

fun exec_all :: "VkAppsPull \<Rightarrow> 'a stmt list \<Rightarrow> 'a state \<Rightarrow> unit outcome \<times> 'a state" where
  "exec_all pull [] s = (Returned (), s)"
| "exec_all pull (st # rest) s = and_then (exec_stmt pull st s) (exec_all pull rest)"

type_synonym 'a call = "VkAppsPull \<times> 'a stmt list"

type_synonym 'a config = "'a call list \<times> 'a state \<times> string option"

fun step_call :: "nat \<Rightarrow> 'a config \<Rightarrow> 'a config" where
  "step_call i (calls, s, crash) =
     (if crash \<noteq> None \<or> length calls \<le> i then (calls, s, crash)
      else case calls ! i of
          (pull, []) \<Rightarrow> (calls, s, crash)
        | (pull, st # rest) \<Rightarrow>
            (case exec_stmt pull st s of
               (Returned _, s') \<Rightarrow> (calls[i := (pull, rest)], s', None)
             | (Panicked msg, s') \<Rightarrow> (calls, s', Some msg)
             | (Blocked, s') \<Rightarrow> (calls, s, crash)))"

definition run :: "nat list \<Rightarrow> 'a config \<Rightarrow> 'a config" where
  "run schedule cfg = fold step_call schedule cfg"

fun in_critical :: "'a call \<Rightarrow> bool" where
  "in_critical (pull, AssignStmt appID token # rest) = True"
| "in_critical (pull, UnlockStmt # rest) = True"
| "in_critical (pull, todo) = False"

definition start :: "VkAppsPull \<Rightarrow> (string \<times> 'a) list \<Rightarrow> 'a call list" where
  "start pull regs = map (\<lambda>(appID, token). (pull, addToken_body appID token)) regs"

text \<open>
  What the calls started by \<open>start\<close> can still have to run, and the invariant of their
  configurations: no panic, every call has the receiver and a tail of the body, and the
  number of calls in their critical section is 1 when the mutex is held and 0 when not.
\<close>

definition body_tail :: "'a stmt list \<Rightarrow> bool" where
  "body_tail todo =
     (todo = [] \<or> todo = [UnlockStmt]
      \<or> (\<exists>appID token. todo = [AssignStmt appID token, UnlockStmt])
      \<or> (\<exists>appID token. todo = [LockStmt, AssignStmt appID token, UnlockStmt]))"

definition registry_inv :: "VkAppsPull \<Rightarrow> ref \<Rightarrow> 'a config \<Rightarrow> bool" where
  "registry_inv pull m cfg =
     (case cfg of (calls, s, crash) \<Rightarrow>
        crash = None \<and> list_all (\<lambda>c. fst c = pull \<and> body_tail (snd c)) calls
        \<and> length (filter in_critical calls) = (if mutexes s m then 1 else 0))"

section \<open>Sample values\<close>

text \<open>
  An API value whose client is nil, a runtime whose default client answers every request
  with the given body and decodes with the given function, a decoder that accepts one
  body, a user, a remote error, and a registry whose locker and maps are in place.
\<close>

definition example_api :: API where
  "example_api =
     \<lparr>getAPIURL = (\<lambda>method. \<lparr>Path = ''https://api.vk.com/method/'' @ method,
                              RawQuery = [(''v'', [''5.0''])]\<rparr>),
      httpClient = None\<rparr>"

definition example_runtime :: "string \<Rightarrow> (string \<Rightarrow> string + nat Response) \<Rightarrow> nat runtime" where
  "example_runtime body dec =
     \<lparr>DefaultClient = (\<lambda>url. Inr \<lparr>StatusCode = 200, Body = body\<rparr>), Unmarshal = dec\<rparr>"

definition example_decode :: "nat Response \<Rightarrow> string \<Rightarrow> string + nat Response" where
  "example_decode response body =
     (if body = ''reply'' then Inr response else Inl ''invalid character'')"

definition example_user :: "nat UserInfo" where
  "example_user = UserInfo_zero\<lparr>ID := 1, FirstName := ''Pavel'', LastName := ''Durov''\<rparr>"

definition example_error :: vkError where
  "example_error = \<lparr>Code = 113, Message = ''Invalid user id'', RequestParams = Some []\<rparr>"

definition example_pull :: VkAppsPull where
  "example_pull = \<lparr>locker = Some 0, callbackUrl = [], secrets = Some 0, tokens = Some 0\<rparr>"

definition example_decoder :: "string \<Rightarrow> string + nat Response" where
  "example_decoder = example_decode \<lparr>Error = None, Response = Some [example_user]\<rparr>"

section \<open>Auxiliary facts\<close>

lemma example_url:
  "users_get_url example_api [''1''] [] ''nom'' =
     \<lparr>Path = ''https://api.vk.com/method/users.get'',
      RawQuery = [(''v'', [''5.0'']), (''user_ids'', [''1'']), (''name_case'', [''nom''])]\<rparr>"
  by (simp add: users_get_url_def example_api_def query_Set_def)

lemma example_client:
  "(case httpClient example_api of None \<Rightarrow> DefaultClient (example_runtime body dec)
      | Some cl \<Rightarrow> cl) url = Inr \<lparr>StatusCode = 200, Body = body\<rparr>"
  by (simp add: example_api_def example_runtime_def)

lemma example_Unmarshal: "Unmarshal (example_runtime body dec) = dec"
  by (simp add: example_runtime_def)

lemma nom_in_NameCases: "ElemInSlice ''nom'' NameCases"
  by (simp add: ElemInSlice_def NameCases_def)

lemma FormatInt10_1: "FormatInt10 1 = ''1''"
  by (simp add: FormatInt10_def digits10.simps digit_def)

lemma UsersGet_unknown_name_case:
  assumes "userIds \<noteq> []" and "nameCase \<noteq> []" and "nameCase \<notin> set NameCases"
  shows "UsersGet rt api userIds flds nameCase net =
           ((None, Some (New ''the only available name cases are: nom, gen, dat, acc, ins, abl'')),
            net)"
proof -
  have "Join NameCases '', '' = ''nom, gen, dat, acc, ins, abl''"
    by (simp add: NameCases_def)
  with assms show ?thesis
    by (simp add: UsersGet_def ElemInSlice_def)
qed

lemma UsersGet_empty_name_case:
  assumes "userIds \<noteq> []"
  shows "snd (UsersGet rt api userIds flds [] net) = net @ [users_get_url api userIds flds []]"
    and "snd (fst (UsersGet rt api userIds flds [] net)) \<noteq> Some (New msg)"
  using assms
  by (simp_all add: UsersGet_def ElemInSlice_def Let_def split: sum.splits option.splits)

lemma addToken_initialised:
  assumes "locker pull = Some m" and "tokens pull = Some r" and "\<not> mutexes s m"
  shows "addToken pull appID token s =
           (Returned (), s\<lparr>token_maps := (token_maps s)(r := (token_maps s r)(appID \<mapsto> token))\<rparr>)"
proof -
  have "(mutexes s)(m := False) = mutexes s"
    using assms(3) by (simp add: fun_upd_idem)
  then show ?thesis
    using assms by (simp add: addToken_def and_then_def Lock_def Unlock_def assign_token_def)
qed

lemma addToken_held:
  assumes "locker pull = Some m" and "mutexes s m"
  shows "addToken pull appID token s = (Blocked, s)"
  using assms by (simp add: addToken_def and_then_def Lock_def)

lemma addToken_nil_locker:
  assumes "locker pull = None"
  shows "addToken pull appID token s =
           (Panicked ''invalid memory address or nil pointer dereference'', s)"
  using assms by (simp add: addToken_def and_then_def Lock_def)

lemma addToken_nil_map:
  assumes "locker pull = Some m" and "\<not> mutexes s m" and "tokens pull = None"
  shows "addToken pull appID token s =
           (Panicked ''assignment to entry in nil map'', s\<lparr>mutexes := (mutexes s)(m := True)\<rparr>)"
  using assms by (simp add: addToken_def and_then_def Lock_def assign_token_def)

lemma addTokens_initialised:
  assumes "locker pull = Some m" and "tokens pull = Some r" and "\<not> mutexes s m"
  shows "addTokens pull regs s =
           (Returned (), s\<lparr>token_maps := (token_maps s)(r := token_maps s r ++ map_of (rev regs))\<rparr>)"
  using assms
proof (induction regs arbitrary: s)
  case Nil
  then show ?case by simp
next
  case (Cons reg regs)
  obtain appID token where reg: "reg = (appID, token)" by (cases reg)
  let ?s1 = "s\<lparr>token_maps := (token_maps s)(r := (token_maps s r)(appID \<mapsto> token))\<rparr>"
  have step: "addToken pull appID token s = (Returned (), ?s1)"
    using Cons.prems by (rule addToken_initialised)
  have free: "\<not> mutexes ?s1 m" using Cons.prems by simp
  have rest: "addTokens pull regs ?s1 =
        (Returned (), ?s1\<lparr>token_maps := (token_maps ?s1)(r := token_maps ?s1 r ++ map_of (rev regs))\<rparr>)"
    using Cons.IH [OF Cons.prems(1) Cons.prems(2) free] .
  have "addTokens pull (reg # regs) s = addTokens pull regs ?s1"
    by (simp add: reg and_then_def step)
  also have "\<dots> = (Returned (),
        ?s1\<lparr>token_maps := (token_maps ?s1)(r := token_maps ?s1 r ++ map_of (rev regs))\<rparr>)"
    by (rule rest)
  also have "\<dots> = (Returned (),
        s\<lparr>token_maps := (token_maps s)(r := token_maps s r ++ map_of (rev (reg # regs)))\<rparr>)"
    by (simp add: reg)
  finally show ?case .
qed

lemma and_then_Returned: "and_then r (\<lambda>s. (Returned (), s)) = r"
  by (cases r; cases "fst r") (simp_all add: and_then_def)

lemma and_then_assoc: "and_then (and_then r f) g = and_then r (\<lambda>s. and_then (f s) g)"
  by (cases r; cases "fst r") (simp_all add: and_then_def)

lemma exec_all_Nil_fun: "exec_all pull [] = (\<lambda>s. (Returned (), s))"
  by (rule ext) simp

lemma exec_all_Cons_fun:
  "exec_all pull (st # rest) = (\<lambda>s. and_then (exec_stmt pull st s) (exec_all pull rest))"
  by (rule ext) simp

lemma addToken_exec_all: "addToken pull appID token s = exec_all pull (addToken_body appID token) s"
  by (simp add: addToken_def addToken_body_def and_then_Returned and_then_assoc
        exec_all_Nil_fun exec_all_Cons_fun)

lemma count_update:
  "i < length xs \<Longrightarrow>
     length (filter P (xs[i := y])) + (if P (xs ! i) then 1 else 0)
       = length (filter P xs) + (if P y then 1 else 0)"
proof (induction xs arbitrary: i)
  case Nil
  then show ?case by simp
next
  case (Cons x xs)
  show ?case
  proof (cases i)
    case 0
    then show ?thesis by simp
  next
    case (Suc j)
    with Cons.prems have "j < length xs" by simp
    from Cons.IH [OF this] Suc show ?thesis by simp
  qed
qed

lemma count_pos:
  assumes "i < length xs" and "P (xs ! i)"
  shows "0 < length (filter P xs)"
proof -
  have "xs ! i \<in> set xs" using assms(1) by simp
  with assms(2) have "filter P xs \<noteq> []" by (auto simp: filter_empty_conv)
  then show ?thesis by simp
qed

lemma list_all_update:
  "list_all Q xs \<Longrightarrow> Q y \<Longrightarrow> list_all Q (xs[i := y])"
proof (induction xs arbitrary: i)
  case Nil
  then show ?case by simp
next
  case (Cons x xs)
  then show ?case by (cases i) simp_all
qed

lemma step_call_inv:
  assumes lk: "locker pull = Some m" and tk: "tokens pull = Some r"
    and inv: "registry_inv pull m cfg"
  shows "registry_inv pull m (step_call i cfg)"
proof -
  obtain calls s crash where cfg: "cfg = (calls, s, crash)" by (cases cfg)
  from inv have crash: "crash = None"
    and wf: "list_all (\<lambda>c. fst c = pull \<and> body_tail (snd c)) calls"
    and cnt: "length (filter in_critical calls) = (if mutexes s m then 1 else 0)"
    by (simp_all add: registry_inv_def cfg)
  show ?thesis
  proof (cases "i < length calls")
    case False
    with inv show ?thesis by (simp add: cfg)
  next
    case True
    obtain todo where ci: "calls ! i = (pull, todo)" and bt: "body_tail todo"
      using wf True by (cases "calls ! i") (auto simp: list_all_length)
    note upd = count_update [OF True, of in_critical]
    from bt consider
        (finished) "todo = []"
      | (unlock) "todo = [UnlockStmt]"
      | (assign) appID token where "todo = [AssignStmt appID token, UnlockStmt]"
      | (lock) appID token where "todo = [LockStmt, AssignStmt appID token, UnlockStmt]"
      unfolding body_tail_def by blast
    then show ?thesis
    proof cases
      case finished
      with inv True ci show ?thesis by (simp add: cfg crash)
    next
      case unlock
      have "0 < length (filter in_critical calls)"
        using count_pos [OF True, of in_critical] ci unlock by simp
      with cnt have held: "mutexes s m" by (simp split: if_splits)
      have wf': "list_all (\<lambda>c. fst c = pull \<and> body_tail (snd c)) (calls[i := (pull, [])])"
        using wf by (rule list_all_update) (simp add: body_tail_def)
      have "length (filter in_critical (calls[i := (pull, [])])) = 0"
        using upd [of "(pull, [])"] ci unlock cnt held by simp
      with held wf' True ci unlock show ?thesis
        by (simp add: cfg crash registry_inv_def Unlock_def lk)
    next
      case assign
      have "0 < length (filter in_critical calls)"
        using count_pos [OF True, of in_critical] ci assign by simp
      with cnt have held: "mutexes s m" by (simp split: if_splits)
      have wf': "list_all (\<lambda>c. fst c = pull \<and> body_tail (snd c)) (calls[i := (pull, [UnlockStmt])])"
        using wf by (rule list_all_update) (simp add: body_tail_def)
      have "length (filter in_critical (calls[i := (pull, [UnlockStmt])])) = 1"
        using upd [of "(pull, [UnlockStmt])"] ci assign cnt held by simp
      with held wf' True ci assign show ?thesis
        by (simp add: cfg crash registry_inv_def assign_token_def tk)
    next
      case lock
      show ?thesis
      proof (cases "mutexes s m")
        case held: True
        with inv True ci lock show ?thesis by (simp add: cfg crash Lock_def lk)
      next
        case free: False
        have wf': "list_all (\<lambda>c. fst c = pull \<and> body_tail (snd c))
                     (calls[i := (pull, [AssignStmt appID token, UnlockStmt])])"
          using wf by (rule list_all_update) (simp add: body_tail_def)
        have "length (filter in_critical (calls[i := (pull, [AssignStmt appID token, UnlockStmt])])) = 1"
          using upd [of "(pull, [AssignStmt appID token, UnlockStmt])"] ci lock cnt free by simp
        with free wf' True ci lock show ?thesis
          by (simp add: cfg crash registry_inv_def Lock_def lk)
      qed
    qed
  qed
qed

lemma run_inv:
  assumes "locker pull = Some m" and "tokens pull = Some r" and "registry_inv pull m cfg"
  shows "registry_inv pull m (run schedule cfg)"
  using assms(3) unfolding run_def
  by (induction schedule arbitrary: cfg) (simp_all add: step_call_inv [OF assms(1,2)])

lemma start_inv:
  assumes "\<not> mutexes s m"
  shows "registry_inv pull m (start pull regs, s, None)"
proof -
  have "filter in_critical (start pull regs) = []"
    by (auto simp: start_def addToken_body_def filter_empty_conv)
  then show ?thesis
    using assms by (auto simp: registry_inv_def start_def addToken_body_def list_all_iff body_tail_def)
qed

lemma UsersGet_decoded:
  assumes "userIds \<noteq> []" and "ElemInSlice nameCase NameCases"
    and "(case httpClient api of None \<Rightarrow> DefaultClient rt | Some cl \<Rightarrow> cl)
           (users_get_url api userIds flds nameCase) = Inr resp"
    and "Unmarshal rt (Body resp) = Inr response"
  shows "UsersGet rt api userIds flds nameCase net =
           ((Response response, (case Error response of None \<Rightarrow> None | Some e \<Rightarrow> Some (Vk e))),
            net @ [users_get_url api userIds flds nameCase])"
  using assms by (simp add: UsersGet_def Let_def)

lemma example_UsersGet:
  "UsersGet (example_runtime ''reply'' (example_decode response)) example_api [''1''] [] ''nom'' net =
     ((Response response, (case Error response of None \<Rightarrow> None | Some e \<Rightarrow> Some (Vk e))),
      net @ [users_get_url example_api [''1''] [] ''nom''])"
  by (rule UsersGet_decoded [where resp = "\<lparr>StatusCode = 200, Body = ''reply''\<rparr>"])
     (simp_all add: nom_in_NameCases example_client example_Unmarshal example_decode_def)

section \<open>Input validation of UsersGet\<close>

text \<open>
  C3. For every call of \<open>UsersGet\<close> with an empty identifier list, whatever the fields and
  the name case are, the call returns the nil list with the validation error "you must
  pass at least one id or screen_name", and the network log is the one it was given: no
  request is made.
\<close>

theorem UsersGet_no_ids:
  "UsersGet rt api [] flds nameCase net =
     ((None, Some (New ''you must pass at least one id or screen_name'')), net)"
  by (simp add: UsersGet_def)

theorem UsersGet_no_ids_witness:
  "UsersGet (example_runtime ''reply'' (example_decode \<lparr>Error = None, Response = Some [example_user]\<rparr>))
     example_api [] [''sex''] ''nom'' [] =
     ((None, Some (New ''you must pass at least one id or screen_name'')), [])"
  by (rule UsersGet_no_ids)

text \<open>
  C1. For every call of \<open>UsersGet\<close> with at least one identifier: a name case that is
  not empty and not one of the six values of \<open>NameCases\<close> gives the validation error "the
  only available name cases are: nom, gen, dat, acc, ins, abl" and the network log is
  the one the call was given, so no request is made; the empty name case is accepted:
  the request is made, and whatever error the call returns is not a validation error.
  The check is the helper \<open>ElemInSlice\<close>, which is modelled from the spec.
\<close>

theorem UsersGet_name_case_validation:
  assumes "userIds \<noteq> []"
  shows "(nameCase \<noteq> [] \<and> nameCase \<notin> set NameCases \<longrightarrow>
            UsersGet rt api userIds flds nameCase net =
              ((None, Some (New ''the only available name cases are: nom, gen, dat, acc, ins, abl'')),
               net))
       \<and> snd (UsersGet rt api userIds flds [] net) = net @ [users_get_url api userIds flds []]
       \<and> (\<forall>msg. snd (fst (UsersGet rt api userIds flds [] net)) \<noteq> Some (New msg))"
  using assms
  by (simp add: UsersGet_unknown_name_case UsersGet_empty_name_case)

theorem UsersGet_name_case_validation_witness:
  "UsersGet (example_runtime ''reply'' example_decoder) example_api [''1''] [] ''xyz'' [] =
     ((None, Some (New ''the only available name cases are: nom, gen, dat, acc, ins, abl'')), [])
   \<and> snd (UsersGet (example_runtime ''reply'' example_decoder) example_api [''1''] [] [] []) =
     [\<lparr>Path = ''https://api.vk.com/method/users.get'',
       RawQuery = [(''v'', [''5.0'']), (''user_ids'', [''1''])]\<rparr>]
   \<and> snd (fst (UsersGet (example_runtime ''reply'' example_decoder) example_api [''1''] [] [] []))
       \<noteq> Some (New ''the only available name cases are: nom, gen, dat, acc, ins, abl'')"
proof -
  have ids: "[''1''] \<noteq> ([] :: string list)" by simp
  have url: "users_get_url example_api [''1''] [] [] =
     \<lparr>Path = ''https://api.vk.com/method/users.get'',
      RawQuery = [(''v'', [''5.0'']), (''user_ids'', [''1''])]\<rparr>"
    by (simp add: users_get_url_def example_api_def query_Set_def)
  have out: "''xyz'' \<noteq> [] \<and> ''xyz'' \<notin> set NameCases"
    by (simp add: NameCases_def)
  from UsersGet_name_case_validation [OF ids, of "''xyz''"
      "example_runtime ''reply'' example_decoder" example_api "[]" "[]"] out
  show ?thesis by (simp add: url)
qed

section \<open>Decoding the reply\<close>

text \<open>
  C2. When the arguments pass validation, the request is answered and the body decodes to
  an envelope whose error field is not null, \<open>UsersGet\<close> returns that error, whose
  \<open>VkErrorCode\<close> is the envelope's \<open>error_code\<close>, together with the list of the envelope's
  response field, whatever that list is (nil, empty or populated).
\<close>

theorem UsersGet_remote_error:
  assumes "userIds \<noteq> []" and "ElemInSlice nameCase NameCases"
    and "(case httpClient api of None \<Rightarrow> DefaultClient rt | Some cl \<Rightarrow> cl)
           (users_get_url api userIds flds nameCase) = Inr resp"
    and "Unmarshal rt (Body resp) = Inr response"
    and "Error response = Some e"
  shows "UsersGet rt api userIds flds nameCase net =
           ((Response response, Some (Vk e)), net @ [users_get_url api userIds flds nameCase])
         \<and> VkErrorCode e = Code e"
  using UsersGet_decoded [OF assms(1-4)] assms(5) by (simp add: VkErrorCode_def)

theorem UsersGet_remote_error_witness:
  "UsersGet (example_runtime ''reply''
       (example_decode \<lparr>Error = Some example_error, Response = Some [example_user]\<rparr>))
     example_api [''1''] [] ''nom'' [] =
     ((Some [example_user], Some (Vk example_error)),
      [\<lparr>Path = ''https://api.vk.com/method/users.get'',
        RawQuery = [(''v'', [''5.0'']), (''user_ids'', [''1'']), (''name_case'', [''nom''])]\<rparr>])
   \<and> VkErrorCode example_error = 113"
proof -
  let ?response = "\<lparr>Error = Some example_error, Response = Some [example_user]\<rparr>"
  let ?rt = "example_runtime ''reply'' (example_decode ?response)"
  have ids: "[''1''] \<noteq> ([] :: string list)" by simp
  have client: "(case httpClient example_api of None \<Rightarrow> DefaultClient ?rt | Some cl \<Rightarrow> cl)
           (users_get_url example_api [''1''] [] ''nom'') = Inr \<lparr>StatusCode = 200, Body = ''reply''\<rparr>"
    by (rule example_client)
  have dec: "Unmarshal ?rt (Body \<lparr>StatusCode = 200, Body = ''reply''\<rparr>) = Inr ?response"
    by (simp add: example_Unmarshal example_decode_def)
  have err: "Error ?response = Some example_error" by simp
  from UsersGet_remote_error [OF ids nom_in_NameCases client dec err, of "[]"]
  show ?thesis by (simp add: example_url example_error_def)
qed

text \<open>
  C5. When the arguments pass validation, the request is answered and the body decodes to
  an envelope whose error field is null, \<open>UsersGet\<close> returns exactly the list of the
  envelope's response field (in particular a populated one) and the nil error.
\<close>

theorem UsersGet_success:
  assumes "userIds \<noteq> []" and "ElemInSlice nameCase NameCases"
    and "(case httpClient api of None \<Rightarrow> DefaultClient rt | Some cl \<Rightarrow> cl)
           (users_get_url api userIds flds nameCase) = Inr resp"
    and "Unmarshal rt (Body resp) = Inr response"
    and "Error response = None"
  shows "UsersGet rt api userIds flds nameCase net =
           ((Response response, None), net @ [users_get_url api userIds flds nameCase])"
  using UsersGet_decoded [OF assms(1-4)] assms(5) by simp

theorem UsersGet_success_witness:
  "UsersGet (example_runtime ''reply''
       (example_decode \<lparr>Error = None, Response = Some [example_user, example_user\<lparr>ID := 2\<rparr>]\<rparr>))
     example_api [''1''] [] ''nom'' [] =
     ((Some [example_user, example_user\<lparr>ID := 2\<rparr>], None),
      [\<lparr>Path = ''https://api.vk.com/method/users.get'',
        RawQuery = [(''v'', [''5.0'']), (''user_ids'', [''1'']), (''name_case'', [''nom''])]\<rparr>])"
proof -
  let ?response = "\<lparr>Error = None, Response = Some [example_user, example_user\<lparr>ID := 2\<rparr>]\<rparr>"
  let ?rt = "example_runtime ''reply'' (example_decode ?response)"
  have ids: "[''1''] \<noteq> ([] :: string list)" by simp
  have client: "(case httpClient example_api of None \<Rightarrow> DefaultClient ?rt | Some cl \<Rightarrow> cl)
           (users_get_url example_api [''1''] [] ''nom'') = Inr \<lparr>StatusCode = 200, Body = ''reply''\<rparr>"
    by (rule example_client)
  have dec: "Unmarshal ?rt (Body \<lparr>StatusCode = 200, Body = ''reply''\<rparr>) = Inr ?response"
    by (simp add: example_Unmarshal example_decode_def)
  have err: "Error ?response = None" by simp
  from UsersGet_success [OF ids nom_in_NameCases client dec err, of "[]"]
  show ?thesis by (simp add: example_url)
qed

text \<open>
  C6. When the arguments pass validation, the request is answered and the body does not
  decode (\<open>json.Unmarshal\<close> returns an error), \<open>UsersGet\<close> returns the nil list and that
  error wrapped with the context "Failed to unmarshal VK response".
\<close>

theorem UsersGet_decode_error:
  assumes "userIds \<noteq> []" and "ElemInSlice nameCase NameCases"
    and "(case httpClient api of None \<Rightarrow> DefaultClient rt | Some cl \<Rightarrow> cl)
           (users_get_url api userIds flds nameCase) = Inr resp"
    and "Unmarshal rt (Body resp) = Inl cause"
  shows "UsersGet rt api userIds flds nameCase net =
           ((None, Some (Wrap (Json cause) ''Failed to unmarshal VK response'')),
            net @ [users_get_url api userIds flds nameCase])"
  using assms by (simp add: UsersGet_def Let_def)

theorem UsersGet_decode_error_witness:
  "UsersGet (example_runtime ''{'' (example_decode \<lparr>Error = None, Response = Some [example_user]\<rparr>))
     example_api [''1''] [] ''nom'' [] =
     ((None, Some (Wrap (Json ''invalid character'') ''Failed to unmarshal VK response'')),
      [\<lparr>Path = ''https://api.vk.com/method/users.get'',
        RawQuery = [(''v'', [''5.0'']), (''user_ids'', [''1'']), (''name_case'', [''nom''])]\<rparr>])"
proof -
  let ?rt = "example_runtime ''{'' (example_decode \<lparr>Error = None, Response = Some [example_user]\<rparr>)"
  have ids: "[''1''] \<noteq> ([] :: string list)" by simp
  have client: "(case httpClient example_api of None \<Rightarrow> DefaultClient ?rt | Some cl \<Rightarrow> cl)
           (users_get_url example_api [''1''] [] ''nom'') = Inr \<lparr>StatusCode = 200, Body = ''{''\<rparr>"
    by (rule example_client)
  have dec: "Unmarshal ?rt (Body \<lparr>StatusCode = 200, Body = ''{''\<rparr>) = Inl ''invalid character''"
    by (simp add: example_Unmarshal example_decode_def)
  from UsersGet_decode_error [OF ids nom_in_NameCases client dec, of "[]"]
  show ?thesis by (simp add: example_url)
qed

section \<open>GetUserByIntID\<close>

text \<open>
  C4. Whenever the call of \<open>UsersGet\<close> that \<open>GetUserByIntID\<close> makes returns the nil error:
  if it returned exactly one record, \<open>GetUserByIntID\<close> returns that record and the nil
  error; for any other number of records it panics with the message
  "len(users):n != 1" and returns nothing.
\<close>

theorem GetUserByIntID_one_record_or_panic:
  assumes "UsersGet rt api [FormatInt10 (sint userID)] flds nameCase net = ((users, None), net')"
  shows "(len users = 1 \<longrightarrow> (\<exists>u. users = Some [u] \<and>
            GetUserByIntID rt api userID nameCase flds net = (Returned (u, None), net')))
       \<and> (len users \<noteq> 1 \<longrightarrow>
            GetUserByIntID rt api userID nameCase flds net =
              (Panicked (''len(users):'' @ FormatInt10 (int (len users)) @ '' != 1''), net'))"
  using assms
  by (auto simp: GetUserByIntID_def len_def elems_def length_Suc_conv split: option.splits)

theorem GetUserByIntID_one_record_or_panic_witness:
  "GetUserByIntID (example_runtime ''reply''
       (example_decode \<lparr>Error = None, Response = Some [example_user]\<rparr>))
     example_api 1 ''nom'' [] [] =
     (Returned (example_user, None), [users_get_url example_api [''1''] [] ''nom''])
   \<and> GetUserByIntID (example_runtime ''reply'' (example_decode \<lparr>Error = None, Response = Some []\<rparr>))
     example_api 1 ''nom'' [] [] =
     (Panicked ''len(users):0 != 1'', [users_get_url example_api [''1''] [] ''nom''])"
proof -
  let ?one = "\<lparr>Error = None, Response = Some [example_user]\<rparr>"
  let ?none = "\<lparr>Error = None, Response = Some ([] :: nat UserInfo list)\<rparr>"
  have one: "UsersGet (example_runtime ''reply'' (example_decode ?one)) example_api
               [FormatInt10 (sint (1 :: 64 word))] [] ''nom'' [] =
             ((Some [example_user], None), [users_get_url example_api [''1''] [] ''nom''])"
    by (simp add: FormatInt10_1 example_UsersGet)
  have none: "UsersGet (example_runtime ''reply'' (example_decode ?none)) example_api
               [FormatInt10 (sint (1 :: 64 word))] [] ''nom'' [] =
             ((Some [], None), [users_get_url example_api [''1''] [] ''nom''])"
    by (simp add: FormatInt10_1 example_UsersGet)
  have zero: "FormatInt10 0 = ''0''"
    by (simp add: FormatInt10_def digits10.simps digit_def)
  from GetUserByIntID_one_record_or_panic [OF one] GetUserByIntID_one_record_or_panic [OF none]
  show ?thesis by (simp add: len_def zero)
qed

text \<open>
  C9. Whenever the call of \<open>UsersGet\<close> that \<open>GetUserByIntID\<close> makes returns an error,
  \<open>GetUserByIntID\<close> returns the zero \<open>UserInfo\<close> and that error: the list that \<open>UsersGet\<close>
  returned beside the error does not reach the caller.
\<close>

theorem GetUserByIntID_error:
  assumes "UsersGet rt api [FormatInt10 (sint userID)] flds nameCase net = ((users, Some e), net')"
  shows "GetUserByIntID rt api userID nameCase flds net = (Returned (UserInfo_zero, Some e), net')"
  using assms by (simp add: GetUserByIntID_def)

theorem GetUserByIntID_error_witness:
  "UsersGet (example_runtime ''reply''
       (example_decode \<lparr>Error = Some example_error, Response = Some [example_user]\<rparr>))
     example_api [FormatInt10 (sint (1 :: 64 word))] [] ''nom'' [] =
     ((Some [example_user], Some (Vk example_error)), [users_get_url example_api [''1''] [] ''nom''])
   \<and> GetUserByIntID (example_runtime ''reply''
       (example_decode \<lparr>Error = Some example_error, Response = Some [example_user]\<rparr>))
     example_api 1 ''nom'' [] [] =
     (Returned (UserInfo_zero, Some (Vk example_error)),
      [users_get_url example_api [''1''] [] ''nom''])"
proof -
  let ?response = "\<lparr>Error = Some example_error, Response = Some [example_user]\<rparr>"
  have call: "UsersGet (example_runtime ''reply'' (example_decode ?response)) example_api
               [FormatInt10 (sint (1 :: 64 word))] [] ''nom'' [] =
             ((Some [example_user], Some (Vk example_error)),
              [users_get_url example_api [''1''] [] ''nom''])"
    by (simp add: FormatInt10_1 example_UsersGet)
  from call GetUserByIntID_error [OF call] show ?thesis by simp
qed

section \<open>The token registry\<close>

text \<open>
  C8. \<open>RegisterVkApps\<close> has no behaviour: for every callback URL and every map of secrets
  it returns, and the state after it is the state before it, so the registry's
  \<open>callbackUrl\<close>, \<open>secrets\<close> and \<open>tokens\<close>, the mutexes and the contents of the maps are
  unchanged.
\<close>

theorem RegisterVkApps_no_effect:
  "RegisterVkApps url appSecrets s = (Returned (), s)
   \<and> callbackUrl (vkAppsPull (snd (RegisterVkApps url appSecrets s))) = callbackUrl (vkAppsPull s)
   \<and> secrets (vkAppsPull (snd (RegisterVkApps url appSecrets s))) = secrets (vkAppsPull s)
   \<and> tokens (vkAppsPull (snd (RegisterVkApps url appSecrets s))) = tokens (vkAppsPull s)
   \<and> token_maps (snd (RegisterVkApps url appSecrets s)) = token_maps s
   \<and> string_maps (snd (RegisterVkApps url appSecrets s)) = string_maps s"
  by (simp add: RegisterVkApps_def)

theorem RegisterVkApps_no_effect_witness:
  "RegisterVkApps ''https://example.org/callback'' (Some 0) (init_state :: nat state)
     = (Returned (), init_state)
   \<and> vkAppsPull (snd (RegisterVkApps ''https://example.org/callback'' (Some 0)
        (init_state :: nat state))) = VkAppsPull_zero"
  using RegisterVkApps_no_effect [of "''https://example.org/callback''" "Some 0"
      "init_state :: nat state"]
  by (simp add: init_state_def)

text \<open>
  C7. As stated, for every registry, the claim fails: on the registry of the package,
  the zero value, \<open>addToken\<close> does not return and stores nothing.
\<close>

theorem addToken_zero_registry_counterexample:
  "fst (addToken (vkAppsPull (init_state :: nat state)) ''app'' (7 :: nat) init_state)
     \<noteq> Returned ()
   \<and> snd (addToken (vkAppsPull (init_state :: nat state)) ''app'' (7 :: nat) init_state)
     = init_state"
proof -
  have "locker (vkAppsPull (init_state :: nat state)) = None"
    by (simp add: init_state_def VkAppsPull_zero_def)
  then show ?thesis by (simp add: addToken_nil_locker)
qed

text \<open>
  C7, amended. On a registry whose locker and token map are in place:
  \<^item> when the lock is free, \<open>addToken\<close> returns (it has no result) and the only change of
    the state is that the token map holds the token under the application identifier,
    whatever was there before; when the lock is held, the call does not proceed and
    writes nothing;
  \<^item> \<open>addToken\<close> is the run of its three statements \<open>Lock\<close>, assignment, \<open>Unlock\<close>, and for
    any number of calls started on the registry with the lock free and let run in any
    order, statement by statement, at most one call is between its \<open>Lock\<close> and its
    \<open>Unlock\<close> at any time, the mutex is held exactly when there is one, and no call
    panics: the writes exclude each other;
  \<^item> a call that runs alone through its three statements ends in the state that
    \<open>addToken\<close> returns;
  \<^item> after any sequence of registrations the token map holds, for each application
    identifier, the token of the last registration under that identifier (\<open>map_of\<close> of
    the reversed sequence), and what it held before for the other identifiers.
\<close>

theorem addToken_mutual_exclusion_last_writer_wins:
  assumes "locker pull = Some m" and "tokens pull = Some r" and "\<not> mutexes s m"
  shows "addToken pull appID token s =
           (Returned (), s\<lparr>token_maps := (token_maps s)(r := (token_maps s r)(appID \<mapsto> token))\<rparr>)
       \<and> addToken pull appID token (s\<lparr>mutexes := (mutexes s)(m := True)\<rparr>)
           = (Blocked, s\<lparr>mutexes := (mutexes s)(m := True)\<rparr>)
       \<and> addToken pull appID token = exec_all pull (addToken_body appID token)
       \<and> length (filter in_critical (fst (run schedule (start pull regs, s, None)))) \<le> 1
       \<and> (mutexes (fst (snd (run schedule (start pull regs, s, None)))) m
            = (length (filter in_critical (fst (run schedule (start pull regs, s, None)))) = 1))
       \<and> snd (snd (run schedule (start pull regs, s, None))) = None
       \<and> run [0, 0, 0] (start pull [(appID, token)], s, None)
           = ([(pull, [])], snd (addToken pull appID token s), None)
       \<and> addTokens pull regs s =
           (Returned (), s\<lparr>token_maps := (token_maps s)(r := token_maps s r ++ map_of (rev regs))\<rparr>)"
proof -
  have stored: "addToken pull appID token s =
           (Returned (), s\<lparr>token_maps := (token_maps s)(r := (token_maps s r)(appID \<mapsto> token))\<rparr>)"
    using assms by (rule addToken_initialised)
  have held: "addToken pull appID token (s\<lparr>mutexes := (mutexes s)(m := True)\<rparr>)
           = (Blocked, s\<lparr>mutexes := (mutexes s)(m := True)\<rparr>)"
    using assms(1) by (simp add: addToken_held)
  have body: "addToken pull appID token = exec_all pull (addToken_body appID token)"
    by (rule ext) (rule addToken_exec_all)
  obtain calls s' crash where cfg: "run schedule (start pull regs, s, None) = (calls, s', crash)"
    by (cases "run schedule (start pull regs, s, None)")
  have "registry_inv pull m (run schedule (start pull regs, s, None))"
    using assms(1,2) start_inv [OF assms(3)] by (rule run_inv)
  then have inv: "crash = None"
      "length (filter in_critical calls) = (if mutexes s' m then 1 else 0)"
    by (simp_all add: cfg registry_inv_def)
  have excl: "length (filter in_critical (fst (run schedule (start pull regs, s, None)))) \<le> 1"
    and lock: "mutexes (fst (snd (run schedule (start pull regs, s, None)))) m
            = (length (filter in_critical (fst (run schedule (start pull regs, s, None)))) = 1)"
    and safe: "snd (snd (run schedule (start pull regs, s, None))) = None"
    using inv by (simp_all add: cfg)
  have "(mutexes s)(m := False) = mutexes s"
    using assms(3) by (simp add: fun_upd_idem)
  then have alone: "run [0, 0, 0] (start pull [(appID, token)], s, None)
           = ([(pull, [])], snd (addToken pull appID token s), None)"
    using assms
    by (simp add: stored run_def start_def addToken_body_def Lock_def Unlock_def assign_token_def)
  have seq: "addTokens pull regs s =
           (Returned (), s\<lparr>token_maps := (token_maps s)(r := token_maps s r ++ map_of (rev regs))\<rparr>)"
    using assms by (rule addTokens_initialised)
  from stored held body excl lock safe alone seq show ?thesis by blast
qed

theorem addToken_mutual_exclusion_last_writer_wins_witness:
  "addToken example_pull ''app'' (7::nat) init_state
     = (Returned (), init_state\<lparr>token_maps := (\<lambda>_. Map.empty)(0 := [''app'' \<mapsto> 7])\<rparr>)
   \<and> addToken example_pull ''app'' (7::nat) (init_state\<lparr>mutexes := (\<lambda>_. False)(0 := True)\<rparr>)
     = (Blocked, init_state\<lparr>mutexes := (\<lambda>_. False)(0 := True)\<rparr>)
   \<and> fst (run [0, 1, 0, 1] (start example_pull [(''app'', 7::nat), (''other'', 8)], init_state, None))
     = [(example_pull, [UnlockStmt]),
        (example_pull, [LockStmt, AssignStmt ''other'' 8, UnlockStmt])]
   \<and> length (filter in_critical
        (fst (run [0, 1, 0, 1] (start example_pull [(''app'', 7::nat), (''other'', 8)],
           init_state, None)))) \<le> 1
   \<and> fst (addTokens example_pull [(''app'', 7::nat), (''other'', 8), (''app'', 9)] init_state)
     = Returned ()
   \<and> token_maps (snd (addTokens example_pull [(''app'', 7::nat), (''other'', 8), (''app'', 9)]
        init_state)) 0 ''app'' = Some 9
   \<and> token_maps (snd (addTokens example_pull [(''app'', 7::nat), (''other'', 8), (''app'', 9)]
        init_state)) 0 ''other'' = Some 8"
proof -
  have lk: "locker example_pull = Some 0" and tk: "tokens example_pull = Some 0"
    by (simp_all add: example_pull_def)
  have fr: "\<not> mutexes (init_state :: nat state) 0"
    by (simp add: init_state_def)
  note t = addToken_mutual_exclusion_last_writer_wins [OF lk tk fr, of "''app''" 7
      "[0, 1, 0, 1]" "[(''app'', 7::nat), (''other'', 8), (''app'', 9)]"]
  note u = addToken_mutual_exclusion_last_writer_wins [OF lk tk fr, of "''app''" 7
      "[0, 1, 0, 1]" "[(''app'', 7::nat), (''other'', 8)]"]
  have "addToken example_pull ''app'' (7::nat) init_state
     = (Returned (), init_state\<lparr>token_maps := (token_maps init_state)
          (0 := (token_maps init_state 0)(''app'' \<mapsto> 7))\<rparr>)"
    using t by (rule conjunct1)
  then have a: "addToken example_pull ''app'' (7::nat) init_state
     = (Returned (), init_state\<lparr>token_maps := (\<lambda>_. Map.empty)(0 := [''app'' \<mapsto> 7])\<rparr>)"
    by (simp add: init_state_def)
  have "addToken example_pull ''app'' (7::nat)
       (init_state\<lparr>mutexes := (mutexes (init_state :: nat state))(0 := True)\<rparr>)
     = (Blocked, init_state\<lparr>mutexes := (mutexes (init_state :: nat state))(0 := True)\<rparr>)"
    using t by blast
  then have b: "addToken example_pull ''app'' (7::nat) (init_state\<lparr>mutexes := (\<lambda>_. False)(0 := True)\<rparr>)
     = (Blocked, init_state\<lparr>mutexes := (\<lambda>_. False)(0 := True)\<rparr>)"
    by (simp add: init_state_def)
  have c: "addTokens example_pull [(''app'', 7::nat), (''other'', 8), (''app'', 9)] init_state
     = (Returned (), init_state\<lparr>token_maps := (token_maps init_state)
          (0 := token_maps init_state 0 ++ map_of (rev [(''app'', 7::nat), (''other'', 8), (''app'', 9)]))\<rparr>)"
    using t by blast
  have d: "length (filter in_critical
        (fst (run [0, 1, 0, 1] (start example_pull [(''app'', 7::nat), (''other'', 8)],
           init_state, None)))) \<le> 1"
    using u by blast
  have e: "fst (run [0, 1, 0, 1] (start example_pull [(''app'', 7::nat), (''other'', 8)],
           init_state, None))
     = [(example_pull, [UnlockStmt]),
        (example_pull, [LockStmt, AssignStmt ''other'' 8, UnlockStmt])]"
    by (simp add: run_def start_def addToken_body_def lk tk Lock_def assign_token_def
          init_state_def)
  show ?thesis
    unfolding c using a b d e by simp
qed

text \<open>
  C10. \<open>addToken\<close> returns only on a registry that has been set up: it returns exactly when
  the locker is not nil, its lock is free and the token map is not nil. The registry of
  the package, \<open>vkAppsPull\<close>, is the zero value, also after \<open>RegisterVkApps\<close>, and on it
  \<open>addToken\<close> panics at \<open>Lock\<close> on the nil locker; on every registry with a nil locker it
  does. With a locker and a nil token map it panics at the assignment, with the lock
  still held.
\<close>

theorem addToken_zero_value_panics:
  "addToken (vkAppsPull (snd (RegisterVkApps url appSecrets (init_state :: 'a state)))) appID
      (token :: 'a) s
      = (Panicked ''invalid memory address or nil pointer dereference'', s)
   \<and> (locker pull = None \<longrightarrow> addToken pull appID token s
      = (Panicked ''invalid memory address or nil pointer dereference'', s))
   \<and> (locker pull = Some m \<and> \<not> mutexes s m \<and> tokens pull = None \<longrightarrow>
        addToken pull appID token s
          = (Panicked ''assignment to entry in nil map'', s\<lparr>mutexes := (mutexes s)(m := True)\<rparr>))
   \<and> (fst (addToken pull appID token s) = Returned ()
        \<longleftrightarrow> (\<exists>l r. locker pull = Some l \<and> \<not> mutexes s l \<and> tokens pull = Some r))"
proof (intro conjI impI)
  show "addToken (vkAppsPull (snd (RegisterVkApps url appSecrets (init_state :: 'a state)))) appID
      (token :: 'a) s
      = (Panicked ''invalid memory address or nil pointer dereference'', s)"
    by (rule addToken_nil_locker) (simp add: RegisterVkApps_def init_state_def VkAppsPull_zero_def)
  show "addToken pull appID token s
      = (Panicked ''invalid memory address or nil pointer dereference'', s)" if "locker pull = None"
    using that by (rule addToken_nil_locker)
  show "addToken pull appID token s
          = (Panicked ''assignment to entry in nil map'', s\<lparr>mutexes := (mutexes s)(m := True)\<rparr>)"
    if "locker pull = Some m \<and> \<not> mutexes s m \<and> tokens pull = None"
    using that by (simp add: addToken_nil_map)
  show "fst (addToken pull appID token s) = Returned ()
        \<longleftrightarrow> (\<exists>l r. locker pull = Some l \<and> \<not> mutexes s l \<and> tokens pull = Some r)"
  proof (cases "locker pull")
    case None
    then show ?thesis by (simp add: addToken_nil_locker)
  next
    case (Some l)
    note lk = this
    show ?thesis
    proof (cases "mutexes s l")
      case True
      with lk show ?thesis by (simp add: addToken_held)
    next
      case False
      note fr = this
      show ?thesis
      proof (cases "tokens pull")
        case None
        with lk fr show ?thesis by (simp add: addToken_nil_map)
      next
        case (Some r)
        with lk fr show ?thesis by (simp add: addToken_initialised)
      qed
    qed
  qed
qed

theorem addToken_zero_value_panics_witness:
  "addToken (vkAppsPull (snd (RegisterVkApps ''https://example.org/callback'' None
        (init_state :: nat state))))
      ''app'' (7::nat) init_state
      = (Panicked ''invalid memory address or nil pointer dereference'', init_state)
   \<and> addToken (example_pull\<lparr>tokens := None\<rparr>) ''app'' (7::nat) init_state
      = (Panicked ''assignment to entry in nil map'',
         init_state\<lparr>mutexes := (\<lambda>_. False)(0 := True)\<rparr>)
   \<and> fst (addToken example_pull ''app'' (7::nat) init_state) = Returned ()"
proof -
  note t = addToken_zero_value_panics [of "''https://example.org/callback''" None "''app''" 7
      "init_state :: nat state" "example_pull\<lparr>tokens := None\<rparr>" 0]
  note t' = addToken_zero_value_panics [of "''https://example.org/callback''" None "''app''" 7
      "init_state :: nat state" example_pull 0]
  have a: "addToken (vkAppsPull (snd (RegisterVkApps ''https://example.org/callback'' None
        (init_state :: nat state))))
      ''app'' (7::nat) init_state
      = (Panicked ''invalid memory address or nil pointer dereference'', init_state)"
    using t by (rule conjunct1)
  have b: "addToken (example_pull\<lparr>tokens := None\<rparr>) ''app'' (7::nat) init_state
      = (Panicked ''assignment to entry in nil map'',
         init_state\<lparr>mutexes := (\<lambda>_. False)(0 := True)\<rparr>)"
    using t by (simp add: example_pull_def init_state_def)
  have c: "fst (addToken example_pull ''app'' (7::nat) init_state) = Returned ()"
    using t' by (simp add: example_pull_def init_state_def)
  from a b c show ?thesis by simp
qed

end
